theory Spec2Isabelle
  imports Main
begin

section \<open>The classes of the module\<close>

text \<open>
  The module \<^verbatim>\<open>expressions.py\<close> declares the abstract base \<^verbatim>\<open>Expression(ABC)\<close>, twelve
  classes derived from it, and the plain class \<^verbatim>\<open>Function\<close>.
\<close>

datatype cls =
    Expression_cls | Power_cls | Number_cls | Variable_cls | Product_cls | Quotient_cls
  | Sum_cls | Difference_cls | Negative_cls | AbsoluteValue_cls | SquareRoot_cls
  | Modulo_cls | Function_cls | Apply_cls

text \<open>The base class written in each class statement (\<open>None\<close>: \<^verbatim>\<open>ABC\<close> or \<^verbatim>\<open>object\<close>).\<close>

fun base :: "cls \<Rightarrow> cls option" where
  "base Expression_cls = None"
| "base Function_cls = None"
| "base c = Some Expression_cls"

text \<open>The names defined in the body of each class, in source order.\<close>

fun class_body :: "cls \<Rightarrow> string list" where
  "class_body Expression_cls =
     [''__str__'', ''evaluate'', ''expand'', ''derivative'', ''get_distinct_variables'',
      ''get_distinct_numbers'', ''get_distinct_functions'', ''contains'']"
| "class_body Power_cls =
     [''__init__'', ''evaluate'', ''expand'', ''derivative'', ''get_distinct_functions'',
      ''get_distinct_numbers'', ''get_distinct_variables'']"
| "class_body Number_cls =
     [''__init__'', ''evaluate'', ''expand'', ''derivative'', ''get_distinct_functions'',
      ''get_distinct_numbers'', ''get_distinct_variables'']"
| "class_body Variable_cls =
     [''__init__'', ''evaluate'', ''expand'', ''derivative'', ''get_distinct_functions'',
      ''get_distinct_numbers'', ''get_distinct_variables'']"
| "class_body Product_cls =
     [''__init__'', ''evaluate'', ''expand'', ''derivative'', ''get_distinct_functions'',
      ''get_distinct_numbers'', ''get_distinct_variables'']"
| "class_body Quotient_cls =
     [''__init__'', ''evaluate'', ''expand'', ''derivative'', ''get_distinct_functions'',
      ''get_distinct_numbers'', ''get_distinct_variables'']"
| "class_body Sum_cls =
     [''__init__'', ''evaluate'', ''expand'', ''derivative'', ''get_distinct_functions'',
      ''get_distinct_numbers'', ''get_distinct_variables'']"
| "class_body Difference_cls =
     [''__init__'', ''evaluate'', ''expand'', ''derivative'', ''get_distinct_functions'',
      ''get_distinct_numbers'', ''get_distinct_variables'']"
| "class_body Negative_cls =
     [''__init__'', ''evaluate'', ''expand'', ''derivative'', ''get_distinct_functions'',
      ''get_distinct_numbers'', ''get_distinct_variables'']"
| "class_body AbsoluteValue_cls =
     [''__init__'', ''evaluate'', ''expand'', ''derivative'', ''get_distinct_functions'',
      ''get_distinct_numbers'', ''get_distinct_variables'']"
| "class_body SquareRoot_cls =
     [''__init__'', ''evaluate'', ''expand'', ''get_distinct_functions'',
      ''get_distinct_numbers'', ''get_distinct_variables'']"
| "class_body Modulo_cls =
     [''__init__'', ''evaluate'', ''get_distinct_functions'', ''get_distinct_numbers'',
      ''get_distinct_variables'']"
| "class_body Function_cls =
     [''__init__'', ''get_distinct_functions'', ''get_distinct_numbers'',
      ''get_distinct_variables'']"
| "class_body Apply_cls =
     [''__init__'', ''evaluate'', ''expand'', ''get_distinct_functions'',
      ''get_distinct_numbers'', ''get_distinct_variables'']"

text \<open>The names a class body decorates with \<^verbatim>\<open>@abstractmethod\<close>: only \<^verbatim>\<open>Expression\<close> has any.\<close>

fun abstract_decorated :: "cls \<Rightarrow> string list" where
  "abstract_decorated Expression_cls =
     [''__str__'', ''evaluate'', ''expand'', ''derivative'', ''get_distinct_variables'',
      ''get_distinct_numbers'', ''get_distinct_functions'']"
| "abstract_decorated c = []"

text \<open>
  \<^verbatim>\<open>ABCMeta\<close> gives a class the abstract names of its own body, and those abstract names
  of its base that its body does not define again. The hierarchy is one level deep.
\<close>

definition abstractmethods :: "cls \<Rightarrow> string list" where
  "abstractmethods c =
     (case base c of
        None \<Rightarrow> abstract_decorated c
      | Some b \<Rightarrow> filter (\<lambda>m. m \<notin> set (class_body c)) (abstract_decorated b)
                  @ abstract_decorated c)"

text \<open>\<^verbatim>\<open>object.__new__\<close> refuses a class that still has abstract names.\<close>

definition instantiable :: "cls \<Rightarrow> bool" where
  "instantiable c = (abstractmethods c = [])"

text \<open>The twelve expression variants, all derived from \<^verbatim>\<open>Expression\<close>.\<close>

definition variant_classes :: "cls list" where
  "variant_classes =
     [Number_cls, Variable_cls, Sum_cls, Difference_cls, Product_cls, Quotient_cls, Power_cls,
      Modulo_cls, Negative_cls, AbsoluteValue_cls, SquareRoot_cls, Apply_cls]"


section \<open>Values, errors and results\<close>

text \<open>
  A Python number is an \<^verbatim>\<open>int\<close>, of any size, or a number of the host that is no \<^verbatim>\<open>int\<close>:
  a \<^verbatim>\<open>float\<close> or a \<^verbatim>\<open>complex\<close>. The arithmetic of integers is exact and is written out
  below; nothing is assumed of the numbers of the host, whose arithmetic (rounding,
  overflow, complex results) is a parameter of the evaluation.
\<close>

typedecl host_number

datatype pynum = PyInt int | PyHost host_number

text \<open>
  \<open>PyNone\<close> is Python's \<^verbatim>\<open>None\<close>, which the inherited method stubs of \<^verbatim>\<open>Expression\<close>
  return and which may therefore sit where a child expression is expected.
\<close>

datatype func = Function string

datatype expr =
    Number pynum
  | Variable string
  | Sum_expr "expr list"
  | Product expr expr
  | Quotient_expr expr expr
  | Difference expr expr
  | Power expr expr
  | Modulo expr expr
  | Negative expr
  | AbsoluteValue expr
  | SquareRoot expr
  | Apply func expr
  | PyNone

datatype type_error =
    Abstract_class cls
  | Arg_count cls nat
  | Not_an_expression
  | Multiple_values string
  | Host_operand

datatype error =
    TypeError type_error
  | ValueError_unbound string
  | ValueError_math_domain
  | KeyError string
  | ZeroDivisionError
  | AttributeError string
  | OverflowError

text \<open>
  \<open>TypeError (Abstract_class c)\<close>: "Can't instantiate abstract class";
  \<open>TypeError (Arg_count c n)\<close>: \<^verbatim>\<open>__init__\<close> of \<open>c\<close> called with \<open>n\<close> positional arguments
  it does not take;
  \<open>TypeError Not_an_expression\<close>: the \<^verbatim>\<open>TypeError\<close> raised by the combinator search;
  \<open>TypeError (Multiple_values p)\<close>: a keyword argument named like the positional
  parameter \<open>p\<close>;
  \<open>TypeError Host_operand\<close>: a \<^verbatim>\<open>TypeError\<close> of a host operation;
  \<open>ValueError_unbound x\<close>: the \<^verbatim>\<open>ValueError\<close> of \<^verbatim>\<open>Variable.evaluate\<close>;
  \<open>KeyError n\<close>: the failed subscript of the function table;
  \<open>AttributeError m\<close>: method \<open>m\<close> looked up on \<^verbatim>\<open>None\<close>;
  \<open>ValueError_math_domain\<close>, \<open>OverflowError\<close>, \<open>ZeroDivisionError\<close>: raised by arithmetic.
\<close>

definition bind_result :: "error + 'a \<Rightarrow> ('a \<Rightarrow> error + 'b) \<Rightarrow> error + 'b" where
  "bind_result m f = (case m of Inl e \<Rightarrow> Inl e | Inr x \<Rightarrow> f x)"

text \<open>A list comprehension whose element expression may raise: the first error wins.\<close>

fun collect :: "(error + 'a) list \<Rightarrow> error + 'a list" where
  "collect [] = Inr []"
| "collect (r # rs) = bind_result r (\<lambda>x. bind_result (collect rs) (\<lambda>xs. Inr (x # xs)))"

section \<open>Constructors\<close>

text \<open>
  A constructor call \<^verbatim>\<open>C(args)\<close> first runs \<^verbatim>\<open>object.__new__\<close>, which raises when \<open>C\<close> is
  abstract, and only then \<^verbatim>\<open>C.__init__\<close>, given here by its result. The functions below
  take as parameter \<open>inst\<close> which classes can be instantiated; for the module as it is
  written, \<open>inst\<close> is \<^const>\<open>instantiable\<close>.
\<close>

definition type_call :: "(cls \<Rightarrow> bool) \<Rightarrow> cls \<Rightarrow> error + 'a \<Rightarrow> error + 'a" where
  "type_call inst c init_result =
     (if inst c then init_result else Inl (TypeError (Abstract_class c)))"

definition new :: "(cls \<Rightarrow> bool) \<Rightarrow> cls \<Rightarrow> expr \<Rightarrow> error + expr" where
  "new inst c obj = type_call inst c (Inr obj)"

text \<open>\<^verbatim>\<open>Product.__init__(self, factor1, factor2)\<close> applied to a list of positional arguments.\<close>

fun Product_init :: "expr list \<Rightarrow> error + expr" where
  "Product_init [factor1, factor2] = Inr (Product factor1 factor2)"
| "Product_init args = Inl (TypeError (Arg_count Product_cls (length args)))"

definition Product_call :: "(cls \<Rightarrow> bool) \<Rightarrow> expr list \<Rightarrow> error + expr" where
  "Product_call inst args = type_call inst Product_cls (Product_init args)"

text \<open>\<^verbatim>\<open>Sum.__init__(self, *terms)\<close> takes any number of positional arguments.\<close>

definition Sum_call :: "(cls \<Rightarrow> bool) \<Rightarrow> expr list \<Rightarrow> error + expr" where
  "Sum_call inst args = type_call inst Sum_cls (Inr (Sum_expr args))"

text \<open>
  The environment in which every class can be instantiated, as the module would have it if
  each variant defined \<^verbatim>\<open>__str__\<close>. It is not the module's own environment, which is
  \<^const>\<open>instantiable\<close>; it shows what a method body computes apart from the refusal of
  \<^verbatim>\<open>object.__new__\<close>.
\<close>

definition concrete :: "cls \<Rightarrow> bool" where
  "concrete c = True"

section \<open>Evaluation\<close>

text \<open>The host functions named in \<^verbatim>\<open>_SPECIAL_FUNCTIONS_BINDING\<close>.\<close>

datatype special =
    math_sin | math_cos | math_tan | math_asin | math_acos | math_atan | math_atan2
  | math_sinh | math_cosh | math_tanh | math_asinh | math_acosh | math_atanh
  | math_exp | math_log | math_log10 | math_sqrt | builtin_abs | math_ceil | math_floor

definition SPECIAL_FUNCTIONS_BINDING :: "(string \<times> special) list" where
  "SPECIAL_FUNCTIONS_BINDING =
     [(''sin'', math_sin), (''cos'', math_cos), (''tan'', math_tan),
      (''asin'', math_asin), (''acos'', math_acos), (''atan'', math_atan),
      (''atan2'', math_atan2),
      (''sinh'', math_sinh), (''cosh'', math_cosh), (''tanh'', math_tanh),
      (''asinh'', math_asinh), (''acosh'', math_acosh), (''atanh'', math_atanh),
      (''exp'', math_exp), (''ln'', math_log), (''log'', math_log10),
      (''sqrt'', math_sqrt), (''abs'', builtin_abs),
      (''ceil'', math_ceil), (''floor'', math_floor)]"

text \<open>
  The host: the operators of Python on numbers that are not both integers, negation and
  absolute value of a number that is no integer, the power \<^verbatim>\<open>x ** 0.5\<close>, and the functions
  of the table, each called with one argument. Every one of them may raise. The evaluation
  takes the host as a parameter and holds for every host.
\<close>

record host =
  h_add :: "pynum \<Rightarrow> pynum \<Rightarrow> error + pynum"
  h_sub :: "pynum \<Rightarrow> pynum \<Rightarrow> error + pynum"
  h_mul :: "pynum \<Rightarrow> pynum \<Rightarrow> error + pynum"
  h_truediv :: "pynum \<Rightarrow> pynum \<Rightarrow> error + pynum"
  h_pow :: "pynum \<Rightarrow> pynum \<Rightarrow> error + pynum"
  h_mod :: "pynum \<Rightarrow> pynum \<Rightarrow> error + pynum"
  h_neg :: "pynum \<Rightarrow> error + pynum"
  h_abs :: "pynum \<Rightarrow> error + pynum"
  h_pow_half :: "pynum \<Rightarrow> error + pynum"
  h_call :: "special \<Rightarrow> pynum \<Rightarrow> error + pynum"

text \<open>
  The operators. On two integers \<^verbatim>\<open>+\<close>, \<^verbatim>\<open>-\<close>, \<^verbatim>\<open>*\<close> are exact, \<^verbatim>\<open>%\<close> takes the sign of the
  divisor, \<^verbatim>\<open>**\<close> is exact for an exponent that is not negative, and \<^verbatim>\<open>/\<close>, \<^verbatim>\<open>%\<close> by zero and
  zero to a negative power raise \<^verbatim>\<open>ZeroDivisionError\<close>. Every other case is the host's.
\<close>

fun py_add :: "host \<Rightarrow> pynum \<Rightarrow> pynum \<Rightarrow> error + pynum" where
  "py_add h (PyInt a) (PyInt b) = Inr (PyInt (a + b))"
| "py_add h x y = h_add h x y"

fun py_sub :: "host \<Rightarrow> pynum \<Rightarrow> pynum \<Rightarrow> error + pynum" where
  "py_sub h (PyInt a) (PyInt b) = Inr (PyInt (a - b))"
| "py_sub h x y = h_sub h x y"

fun py_mul :: "host \<Rightarrow> pynum \<Rightarrow> pynum \<Rightarrow> error + pynum" where
  "py_mul h (PyInt a) (PyInt b) = Inr (PyInt (a * b))"
| "py_mul h x y = h_mul h x y"

fun py_truediv :: "host \<Rightarrow> pynum \<Rightarrow> pynum \<Rightarrow> error + pynum" where
  "py_truediv h (PyInt a) (PyInt b) =
     (if b = 0 then Inl ZeroDivisionError else h_truediv h (PyInt a) (PyInt b))"
| "py_truediv h x y = h_truediv h x y"

fun py_mod :: "host \<Rightarrow> pynum \<Rightarrow> pynum \<Rightarrow> error + pynum" where
  "py_mod h (PyInt a) (PyInt b) =
     (if b = 0 then Inl ZeroDivisionError else Inr (PyInt (a mod b)))"
| "py_mod h x y = h_mod h x y"

fun py_pow :: "host \<Rightarrow> pynum \<Rightarrow> pynum \<Rightarrow> error + pynum" where
  "py_pow h (PyInt a) (PyInt b) =
     (if 0 \<le> b then Inr (PyInt (a ^ nat b))
      else if a = 0 then Inl ZeroDivisionError
      else h_pow h (PyInt a) (PyInt b))"
| "py_pow h x y = h_pow h x y"

fun py_neg :: "host \<Rightarrow> pynum \<Rightarrow> error + pynum" where
  "py_neg h (PyInt a) = Inr (PyInt (- a))"
| "py_neg h x = h_neg h x"

fun py_abs :: "host \<Rightarrow> pynum \<Rightarrow> error + pynum" where
  "py_abs h (PyInt a) = Inr (PyInt \<bar>a\<bar>)"
| "py_abs h x = h_abs h x"

text \<open>\<^verbatim>\<open>sum(generator)\<close>: the terms are evaluated and added from the left, starting at 0.\<close>

fun py_sum :: "host \<Rightarrow> pynum \<Rightarrow> (error + pynum) list \<Rightarrow> error + pynum" where
  "py_sum h acc [] = Inr acc"
| "py_sum h acc (r # rs) =
     bind_result r (\<lambda>x. bind_result (py_add h acc x) (\<lambda>s. py_sum h s rs))"

lemma bind_result_cong [fundef_cong]:
  "m = m' \<Longrightarrow> (\<And>x. m' = Inr x \<Longrightarrow> f x = f' x) \<Longrightarrow> bind_result m f = bind_result m' f'"
  by (cases m') (simp_all add: bind_result_def)

text \<open>
  Every \<^verbatim>\<open>evaluate\<close> has the signature \<^verbatim>\<open>(self, **bindings)\<close>: a call whose keyword arguments
  hold the name \<^verbatim>\<open>self\<close> raises \<^verbatim>\<open>TypeError\<close> before the body runs.
\<close>

definition keyword_call :: "(string \<rightharpoonup> pynum) \<Rightarrow> error + pynum \<Rightarrow> error + pynum" where
  "keyword_call bindings body =
     (if bindings ''self'' = None then body else Inl (TypeError (Multiple_values ''self'')))"

text \<open>
  \<^verbatim>\<open>e.evaluate(**bindings)\<close>. In \<^verbatim>\<open>Apply.evaluate\<close> the subscript of the function table
  is evaluated before the argument of the call. On \<^verbatim>\<open>None\<close> the method lookup fails before
  any call is made.
\<close>

fun evaluate :: "host \<Rightarrow> expr \<Rightarrow> (string \<rightharpoonup> pynum) \<Rightarrow> error + pynum" where
  "evaluate h (Number v) bindings = keyword_call bindings (Inr v)"
| "evaluate h (Variable name) bindings =
     keyword_call bindings
       (case bindings name of
          Some v \<Rightarrow> Inr v
        | None \<Rightarrow> Inl (ValueError_unbound name))"
| "evaluate h (Sum_expr terms) bindings =
     keyword_call bindings (py_sum h (PyInt 0) (map (\<lambda>t. evaluate h t bindings) terms))"
| "evaluate h (Product factor1 factor2) bindings =
     keyword_call bindings
       (bind_result (evaluate h factor1 bindings) (\<lambda>x.
        bind_result (evaluate h factor2 bindings) (\<lambda>y. py_mul h x y)))"
| "evaluate h (Quotient_expr numerator denominator) bindings =
     keyword_call bindings
       (bind_result (evaluate h numerator bindings) (\<lambda>x.
        bind_result (evaluate h denominator bindings) (\<lambda>y. py_truediv h x y)))"
| "evaluate h (Difference minuend subtrahend) bindings =
     keyword_call bindings
       (bind_result (evaluate h minuend bindings) (\<lambda>x.
        bind_result (evaluate h subtrahend bindings) (\<lambda>y. py_sub h x y)))"
| "evaluate h (Power b e) bindings =
     keyword_call bindings
       (bind_result (evaluate h b bindings) (\<lambda>x.
        bind_result (evaluate h e bindings) (\<lambda>y. py_pow h x y)))"
| "evaluate h (Modulo dividend divisor) bindings =
     keyword_call bindings
       (bind_result (evaluate h dividend bindings) (\<lambda>x.
        bind_result (evaluate h divisor bindings) (\<lambda>y. py_mod h x y)))"
| "evaluate h (Negative e) bindings =
     keyword_call bindings (bind_result (evaluate h e bindings) (py_neg h))"
| "evaluate h (AbsoluteValue e) bindings =
     keyword_call bindings (bind_result (evaluate h e bindings) (py_abs h))"
| "evaluate h (SquareRoot e) bindings =
     keyword_call bindings (bind_result (evaluate h e bindings) (h_pow_half h))"
| "evaluate h (Apply (Function name) argument) bindings =
     keyword_call bindings
       (case map_of SPECIAL_FUNCTIONS_BINDING name of
          None \<Rightarrow> Inl (KeyError name)
        | Some f \<Rightarrow> bind_result (evaluate h argument bindings) (h_call h f))"
| "evaluate h PyNone bindings = Inl (AttributeError ''evaluate'')"

text \<open>
  A host that has integers only: \<^verbatim>\<open>abs\<close>, \<^verbatim>\<open>math.ceil\<close> and \<^verbatim>\<open>math.floor\<close> of an integer
  are exact, as in Python, and every operation that needs a number other than an integer
  raises. It stands for the host where a closed term is needed.
\<close>

fun integer_call :: "special \<Rightarrow> pynum \<Rightarrow> error + pynum" where
  "integer_call builtin_abs (PyInt a) = Inr (PyInt \<bar>a\<bar>)"
| "integer_call math_ceil (PyInt a) = Inr (PyInt a)"
| "integer_call math_floor (PyInt a) = Inr (PyInt a)"
| "integer_call f x = Inl (TypeError Host_operand)"

definition integer_host :: host where
  "integer_host =
     \<lparr>h_add = (\<lambda>x y. Inl (TypeError Host_operand)),
      h_sub = (\<lambda>x y. Inl (TypeError Host_operand)),
      h_mul = (\<lambda>x y. Inl (TypeError Host_operand)),
      h_truediv = (\<lambda>x y. Inl (TypeError Host_operand)),
      h_pow = (\<lambda>x y. Inl (TypeError Host_operand)),
      h_mod = (\<lambda>x y. Inl (TypeError Host_operand)),
      h_neg = (\<lambda>x. Inl (TypeError Host_operand)),
      h_abs = (\<lambda>x. Inl (TypeError Host_operand)),
      h_pow_half = (\<lambda>x. Inl (TypeError Host_operand)),
      h_call = integer_call\<rparr>"

section \<open>Differentiation and expansion\<close>

text \<open>\<^verbatim>\<open>isinstance(x, Sum)\<close> and the attribute \<^verbatim>\<open>terms\<close>, read only after that test.\<close>

fun is_Sum :: "expr \<Rightarrow> bool" where
  "is_Sum (Sum_expr ts) = True"
| "is_Sum e = False"

fun terms_of :: "expr \<Rightarrow> expr list" where
  "terms_of (Sum_expr ts) = ts"
| "terms_of e = []"

text \<open>
  \<^verbatim>\<open>e.derivative(variable)\<close>. The arguments of a call are evaluated from left to right
  before the call. \<^verbatim>\<open>Power.derivative\<close> passes three arguments to \<^verbatim>\<open>Product\<close>.
  \<^verbatim>\<open>SquareRoot\<close>, \<^verbatim>\<open>Modulo\<close> and \<^verbatim>\<open>Apply\<close> define no \<^verbatim>\<open>derivative\<close>: the call runs the stub
  \<^verbatim>\<open>Expression.derivative\<close>, whose body is \<^verbatim>\<open>pass\<close>.
\<close>

fun derivative :: "(cls \<Rightarrow> bool) \<Rightarrow> expr \<Rightarrow> string \<Rightarrow> error + expr" where
  "derivative inst (Number v) variable = new inst Number_cls (Number (PyInt 0))"
| "derivative inst (Variable name) variable =
     (if name = variable then new inst Number_cls (Number (PyInt 1))
      else new inst Number_cls (Number (PyInt 0)))"
| "derivative inst (Sum_expr terms) variable =
     bind_result (collect (map (\<lambda>t. derivative inst t variable) terms)) (Sum_call inst)"
| "derivative inst (Product factor1 factor2) variable =
     bind_result (derivative inst factor2 variable) (\<lambda>d2.
     bind_result (new inst Product_cls (Product factor1 d2)) (\<lambda>p1.
     bind_result (derivative inst factor1 variable) (\<lambda>d1.
     bind_result (new inst Product_cls (Product d1 factor2)) (\<lambda>p2.
     Sum_call inst [p1, p2]))))"
| "derivative inst (Quotient_expr numerator denominator) variable =
     bind_result (derivative inst numerator variable) (\<lambda>dn.
     bind_result (new inst Product_cls (Product dn denominator)) (\<lambda>p1.
     bind_result (derivative inst denominator variable) (\<lambda>dd.
     bind_result (new inst Product_cls (Product numerator dd)) (\<lambda>p2.
     bind_result (new inst Difference_cls (Difference p1 p2)) (\<lambda>diff.
     bind_result (new inst Number_cls (Number (PyInt 2))) (\<lambda>two.
     bind_result (new inst Power_cls (Power denominator two)) (\<lambda>pw.
     new inst Quotient_cls (Quotient_expr diff pw))))))))"
| "derivative inst (Difference minuend subtrahend) variable =
     bind_result (derivative inst minuend variable) (\<lambda>dm.
     bind_result (derivative inst subtrahend variable) (\<lambda>ds.
     new inst Difference_cls (Difference dm ds)))"
| "derivative inst (Power b e) variable =
     bind_result (new inst Number_cls (Number (PyInt 1))) (\<lambda>one.
     bind_result (new inst Difference_cls (Difference e one)) (\<lambda>diff.
     bind_result (new inst Power_cls (Power b diff)) (\<lambda>pw.
     bind_result (derivative inst b variable) (\<lambda>db.
     Product_call inst [e, pw, db]))))"
| "derivative inst (Negative e) variable =
     bind_result (derivative inst e variable) (\<lambda>d. new inst Negative_cls (Negative d))"
| "derivative inst (AbsoluteValue e) variable =
     bind_result (derivative inst e variable) (\<lambda>d.
     new inst AbsoluteValue_cls (AbsoluteValue d))"
| "derivative inst (SquareRoot e) variable = Inr PyNone"
| "derivative inst (Modulo dividend divisor) variable = Inr PyNone"
| "derivative inst (Apply f argument) variable = Inr PyNone"
| "derivative inst PyNone variable = Inl (AttributeError ''derivative'')"

text \<open>
  \<^verbatim>\<open>e.expand()\<close>. A distributing branch builds a new node from a term of an expanded
  operand and expands that node again, so the recursion is not structural.
  \<^verbatim>\<open>Modulo\<close> defines no \<^verbatim>\<open>expand\<close>: the call runs the stub of \<^verbatim>\<open>Expression\<close>.
\<close>

function expand :: "(cls \<Rightarrow> bool) \<Rightarrow> expr \<Rightarrow> error + expr" where
  "expand inst (Number v) = Inr (Number v)"
| "expand inst (Variable name) = Inr (Variable name)"
| "expand inst (Sum_expr terms) =
     bind_result (collect (map (expand inst) terms)) (Sum_call inst)"
| "expand inst (Product factor1 factor2) =
     bind_result (expand inst factor1) (\<lambda>expanded_factor1.
     bind_result (expand inst factor2) (\<lambda>expanded_factor2.
     if is_Sum expanded_factor1 then
       bind_result
         (collect (map (\<lambda>t. bind_result (new inst Product_cls (Product t factor2)) (expand inst))
                       (terms_of expanded_factor1)))
         (Sum_call inst)
     else if is_Sum expanded_factor2 then
       bind_result
         (collect (map (\<lambda>t. bind_result (new inst Product_cls (Product factor1 t)) (expand inst))
                       (terms_of expanded_factor2)))
         (Sum_call inst)
     else new inst Product_cls (Product expanded_factor1 expanded_factor2)))"
| "expand inst (Quotient_expr numerator denominator) =
     bind_result (expand inst numerator) (\<lambda>expanded_numerator.
     bind_result (expand inst denominator) (\<lambda>expanded_denominator.
     if is_Sum expanded_numerator then
       bind_result
         (collect (map (\<lambda>t. bind_result (new inst Quotient_cls (Quotient_expr t denominator))
                                          (expand inst))
                       (terms_of expanded_numerator)))
         (Sum_call inst)
     else if is_Sum expanded_denominator then
       bind_result
         (collect (map (\<lambda>t. bind_result (new inst Quotient_cls (Quotient_expr numerator t))
                                          (expand inst))
                       (terms_of expanded_denominator)))
         (Sum_call inst)
     else new inst Quotient_cls (Quotient_expr expanded_numerator expanded_denominator)))"
| "expand inst (Difference minuend subtrahend) =
     bind_result (expand inst minuend) (\<lambda>expanded_minuend.
     bind_result (expand inst subtrahend) (\<lambda>expanded_subtrahend.
     new inst Difference_cls (Difference expanded_minuend expanded_subtrahend)))"
| "expand inst (Power b e) =
     bind_result (expand inst b) (\<lambda>expaded_base.
     bind_result (expand inst e) (\<lambda>expanded_exponent.
     if is_Sum expaded_base then
       bind_result
         (collect (map (\<lambda>t. bind_result (new inst Power_cls (Power t e)) (expand inst))
                       (terms_of expaded_base)))
         (Sum_call inst)
     else if is_Sum expanded_exponent then
       bind_result
         (collect (map (\<lambda>t. bind_result (new inst Power_cls (Power b t)) (expand inst))
                       (terms_of expanded_exponent)))
         (Product_call inst)
     else new inst Power_cls (Power expaded_base expanded_exponent)))"
| "expand inst (Modulo dividend divisor) = Inr PyNone"
| "expand inst (Negative e) =
     bind_result (expand inst e) (\<lambda>x. new inst Negative_cls (Negative x))"
| "expand inst (AbsoluteValue e) =
     bind_result (expand inst e) (\<lambda>x. new inst AbsoluteValue_cls (AbsoluteValue x))"
| "expand inst (SquareRoot e) =
     bind_result (expand inst e) (\<lambda>x. new inst SquareRoot_cls (SquareRoot x))"
| "expand inst (Apply f argument) =
     bind_result (expand inst argument) (\<lambda>x. new inst Apply_cls (Apply f x))"
| "expand inst PyNone = Inl (AttributeError ''expand'')"
  by pat_completeness auto


text \<open>
  Termination of \<open>expand\<close>: a weight that no expansion increases, under which every
  term of a sum weighs less than the sum, and a product or power more than its operands.
\<close>

fun expand_weight :: "expr \<Rightarrow> nat" where
  "expand_weight (Number v) = 2"
| "expand_weight (Variable name) = 2"
| "expand_weight (Sum_expr ts) = 2 + sum_list (map expand_weight ts)"
| "expand_weight (Product a b) = expand_weight a * expand_weight b"
| "expand_weight (Quotient_expr a b) = expand_weight a * expand_weight b"
| "expand_weight (Difference a b) = expand_weight a + expand_weight b"
| "expand_weight (Power b e) = expand_weight b ^ expand_weight e"
| "expand_weight (Modulo a b) = expand_weight a + expand_weight b"
| "expand_weight (Negative e) = 1 + expand_weight e"
| "expand_weight (AbsoluteValue e) = 1 + expand_weight e"
| "expand_weight (SquareRoot e) = 1 + expand_weight e"
| "expand_weight (Apply f e) = 1 + expand_weight e"
| "expand_weight PyNone = 2"

lemma expand_weight_ge2: "2 \<le> expand_weight e"
proof (induction e)
  case (Product a b)
  have "2 * 1 \<le> expand_weight a * expand_weight b" using Product by (intro mult_le_mono) auto
  then show ?case by simp
next
  case (Quotient_expr a b)
  have "2 * 1 \<le> expand_weight a * expand_weight b" using Quotient_expr by (intro mult_le_mono) auto
  then show ?case by simp
next
  case (Power b e)
  have "2 ^ 1 \<le> expand_weight b ^ expand_weight e" using Power by (intro power_mono power_increasing order_trans[OF power_increasing[of 1 "expand_weight e" "2::nat"]]) auto
  then show ?case by simp
qed auto

lemma new_Inr: "new inst c obj = Inr x \<Longrightarrow> x = obj"
  by (auto simp: new_def type_call_def split: if_splits)

lemma Sum_call_Inr: "Sum_call inst rs = Inr r \<Longrightarrow> r = Sum_expr rs"
  by (auto simp: Sum_call_def type_call_def split: if_splits)

lemma Product_call_Inr:
  "Product_call inst rs = Inr r \<Longrightarrow> \<exists>r1 r2. rs = [r1, r2] \<and> r = Product r1 r2"
  by (cases rs rule: Product_init.cases)
     (auto simp: Product_call_def type_call_def split: if_splits)

lemma bind_result_Inr:
  "bind_result x f = Inr r \<Longrightarrow> \<exists>y. x = Inr y \<and> f y = Inr r"
  by (cases x) (auto simp: bind_result_def)

lemma collect_map_Inr:
  "collect (map g ts) = Inr rs \<Longrightarrow> list_all2 (\<lambda>t r. g t = Inr r) ts rs"
proof (induction ts arbitrary: rs)
  case Nil
  then show ?case by simp
next
  case (Cons t ts)
  from Cons.prems obtain x xs where "g t = Inr x" "collect (map g ts) = Inr xs" "rs = x # xs"
    by (auto dest!: bind_result_Inr)
  with Cons.IH show ?case by simp
qed

lemma elem_le_sum_list_map: "t \<in> set ts \<Longrightarrow> f t \<le> sum_list (map f ts)" for f :: "'a \<Rightarrow> nat"
  by (induction ts) auto

lemma sum_list_all2_mono:
  "list_all2 (\<lambda>t r. f r \<le> h t) ts rs \<Longrightarrow> sum_list (map f rs) \<le> sum_list (map h ts)"
  for f :: "'b \<Rightarrow> nat"
  by (induction ts rs rule: list_all2_induct) auto

lemma pow_superadd: "a ^ k + b ^ k \<le> (a + b) ^ k" if "1 \<le> k" for a b :: nat
  using that
proof (induction k)
  case 0
  then show ?case by simp
next
  case (Suc k)
  show ?case
  proof (cases "k = 0")
    case True
    then show ?thesis by simp
  next
    case False
    then have IH: "a ^ k + b ^ k \<le> (a + b) ^ k" using Suc.IH by simp
    have "a ^ Suc k + b ^ Suc k \<le> (a + b) * (a ^ k + b ^ k)"
      by (simp add: algebra_simps)
    also have "\<dots> \<le> (a + b) * (a + b) ^ k" using IH by (intro mult_le_mono2)
    finally show ?thesis by simp
  qed
qed

lemma sum_list_pow_le: "1 \<le> k \<Longrightarrow> sum_list (map (\<lambda>x. f x ^ k) ts) \<le> sum_list (map f ts) ^ k"
  for f :: "'a \<Rightarrow> nat"
proof (induction ts)
  case Nil
  then show ?case by simp
next
  case (Cons t ts)
  have "f t ^ k + sum_list (map (\<lambda>x. f x ^ k) ts) \<le> f t ^ k + sum_list (map f ts) ^ k"
    using Cons by simp
  also have "\<dots> \<le> (f t + sum_list (map f ts)) ^ k" using Cons.prems by (rule pow_superadd)
  finally show ?case by simp
qed

lemma distribute_bound:
  assumes c: "collect (map (\<lambda>t. bind_result (new inst c (K t)) (expand inst)) ts) = Inr rs"
    and IH: "\<And>t x r. t \<in> set ts \<Longrightarrow> new inst c (K t) = Inr x \<Longrightarrow> expand inst x = Inr r
               \<Longrightarrow> expand_weight r \<le> expand_weight x"
  shows "list_all2 (\<lambda>t r. expand_weight r \<le> expand_weight (K t)) ts rs"
proof -
  have "list_all2 (\<lambda>t r. bind_result (new inst c (K t)) (expand inst) = Inr r) ts rs"
    using c by (rule collect_map_Inr)
  then have "list_all2 (\<lambda>t r. t \<in> set ts \<and> bind_result (new inst c (K t)) (expand inst) = Inr r) ts rs"
    by (induction rule: list_all2_induct) (auto elim: list_all2_mono)
  then show ?thesis
  proof (rule list_all2_mono)
    fix t r
    assume "t \<in> set ts \<and> bind_result (new inst c (K t)) (expand inst) = Inr r"
    then obtain x where "t \<in> set ts" "new inst c (K t) = Inr x" "expand inst x = Inr r"
      by (auto dest!: bind_result_Inr)
    with IH[of t x r] new_Inr[of inst c "K t" x] show "expand_weight r \<le> expand_weight (K t)" by simp
  qed
qed


lemma is_Sum_terms: "is_Sum x \<Longrightarrow> x = Sum_expr (terms_of x)"
  by (cases x) auto

lemma sum_branch_bound:
  assumes "list_all2 (\<lambda>t r. expand_weight r \<le> expand_weight t * k) ts rs" and "2 + sum_list (map expand_weight ts) \<le> ma" and "1 \<le> k"
  shows "2 + sum_list (map expand_weight rs) \<le> ma * k"
proof -
  have "sum_list (map expand_weight rs) \<le> sum_list (map (\<lambda>t. expand_weight t * k) ts)"
    using assms(1) by (rule sum_list_all2_mono)
  also have "\<dots> = sum_list (map expand_weight ts) * k" by (simp add: sum_list_mult_const)
  finally have "2 + sum_list (map expand_weight rs) \<le> 2 * k + sum_list (map expand_weight ts) * k"
    using assms(3) by (intro add_mono) auto
  also have "\<dots> = (2 + sum_list (map expand_weight ts)) * k" by (simp add: algebra_simps)
  also have "\<dots> \<le> ma * k" using assms(2) by (rule mult_le_mono1)
  finally show ?thesis .
qed

lemma power_branch_bound:
  assumes "list_all2 (\<lambda>t r. expand_weight r \<le> expand_weight t ^ k) ts rs" and "2 + sum_list (map expand_weight ts) \<le> mb" and "1 \<le> k"
  shows "2 + sum_list (map expand_weight rs) \<le> mb ^ k"
proof -
  have "sum_list (map expand_weight rs) \<le> sum_list (map (\<lambda>t. expand_weight t ^ k) ts)"
    using assms(1) by (rule sum_list_all2_mono)
  also have "\<dots> \<le> sum_list (map expand_weight ts) ^ k" using assms(3) by (rule sum_list_pow_le)
  finally have "2 + sum_list (map expand_weight rs) \<le> 2 ^ k + sum_list (map expand_weight ts) ^ k"
    using assms(3) self_le_power[of "2::nat" k] by (intro add_mono) auto
  also have "\<dots> \<le> (2 + sum_list (map expand_weight ts)) ^ k" using assms(3) by (rule pow_superadd)
  also have "\<dots> \<le> mb ^ k" using assms(2) by (rule power_mono) simp
  finally show ?thesis .
qed

lemma expand_bound_partial:
  "expand_dom (inst, e) \<Longrightarrow> expand inst e = Inr r \<Longrightarrow> expand_weight r \<le> expand_weight e"
proof (induction inst e arbitrary: r rule: expand.pinduct)
  case (3 inst terms)
  from "3.prems" "3.hyps" obtain rs where rs: "collect (map (expand inst) terms) = Inr rs" "r = Sum_expr rs"
    by (auto simp: expand.psimps dest!: bind_result_Inr Sum_call_Inr)
  have "list_all2 (\<lambda>t r. t \<in> set terms \<and> expand inst t = Inr r) terms rs"
    using collect_map_Inr[OF rs(1)] by (induction rule: list_all2_induct) (auto elim: list_all2_mono)
  then have "list_all2 (\<lambda>t r. expand_weight r \<le> expand_weight t) terms rs"
    by (rule list_all2_mono) (use "3.IH" in auto)
  then show ?case using rs(2) by (simp add: sum_list_all2_mono)
next
  case (4 inst factor1 factor2)
  from "4.prems" "4.hyps" obtain x xa where
    x: "expand inst factor1 = Inr x" and xa: "expand inst factor2 = Inr xa" and
    body: "(if is_Sum x then
       bind_result
         (collect (map (\<lambda>t. bind_result (new inst Product_cls (Product t factor2)) (expand inst))
                       (terms_of x)))
         (Sum_call inst)
     else if is_Sum xa then
       bind_result
         (collect (map (\<lambda>t. bind_result (new inst Product_cls (Product factor1 t)) (expand inst))
                       (terms_of xa)))
         (Sum_call inst)
     else new inst Product_cls (Product x xa)) = Inr r"
    by (auto simp: expand.psimps dest!: bind_result_Inr)
  have mx: "expand_weight x \<le> expand_weight factor1" using "4.IH"(1)[OF x] .
  have mxa: "expand_weight xa \<le> expand_weight factor2" using "4.IH"(2)[OF x xa] .
  show ?case
  proof (cases "is_Sum x")
    case True
    with body obtain rs where
      rs: "collect (map (\<lambda>t. bind_result (new inst Product_cls (Product t factor2)) (expand inst))
                       (terms_of x)) = Inr rs" and r: "r = Sum_expr rs"
      by (auto dest!: bind_result_Inr Sum_call_Inr)
    have "list_all2 (\<lambda>t r. expand_weight r \<le> expand_weight (Product t factor2)) (terms_of x) rs"
      using rs "4.IH"(3)[OF x xa True] by (rule distribute_bound)
    then have "list_all2 (\<lambda>t r. expand_weight r \<le> expand_weight t * expand_weight factor2) (terms_of x) rs" by simp
    moreover have "2 + sum_list (map expand_weight (terms_of x)) \<le> expand_weight factor1"
      using mx is_Sum_terms[OF True] by (metis expand_weight.simps(3))
    moreover have "1 \<le> expand_weight factor2" using expand_weight_ge2[of factor2] by simp
    ultimately show ?thesis unfolding r expand_weight.simps by (rule sum_branch_bound)
  next
    case False
    show ?thesis
    proof (cases "is_Sum xa")
      case True
      with body False obtain rs where
        rs: "collect (map (\<lambda>t. bind_result (new inst Product_cls (Product factor1 t)) (expand inst))
                       (terms_of xa)) = Inr rs" and r: "r = Sum_expr rs"
        by (auto dest!: bind_result_Inr Sum_call_Inr)
      have "list_all2 (\<lambda>t r. expand_weight r \<le> expand_weight (Product factor1 t)) (terms_of xa) rs"
        using rs "4.IH"(4)[OF x xa False True] by (rule distribute_bound)
      then have "list_all2 (\<lambda>t r. expand_weight r \<le> expand_weight t * expand_weight factor1) (terms_of xa) rs"
        by (simp add: mult.commute)
      moreover have "2 + sum_list (map expand_weight (terms_of xa)) \<le> expand_weight factor2"
        using mxa is_Sum_terms[OF True] by (metis expand_weight.simps(3))
      moreover have "1 \<le> expand_weight factor1" using expand_weight_ge2[of factor1] by simp
      ultimately have "2 + sum_list (map expand_weight rs) \<le> expand_weight factor2 * expand_weight factor1" by (rule sum_branch_bound)
      then show ?thesis unfolding r by (simp add: mult.commute)
    next
      case nb: False
      with body False have "r = Product x xa" by (auto dest!: new_Inr)
      then show ?thesis using mx mxa by (simp add: mult_le_mono)
    qed
  qed
next
  case (5 inst numerator denominator)
  from "5.prems" "5.hyps" obtain x xa where
    x: "expand inst numerator = Inr x" and xa: "expand inst denominator = Inr xa" and
    body: "(if is_Sum x then
       bind_result
         (collect (map (\<lambda>t. bind_result (new inst Quotient_cls (Quotient_expr t denominator)) (expand inst))
                       (terms_of x)))
         (Sum_call inst)
     else if is_Sum xa then
       bind_result
         (collect (map (\<lambda>t. bind_result (new inst Quotient_cls (Quotient_expr numerator t)) (expand inst))
                       (terms_of xa)))
         (Sum_call inst)
     else new inst Quotient_cls (Quotient_expr x xa)) = Inr r"
    by (auto simp: expand.psimps dest!: bind_result_Inr)
  have mx: "expand_weight x \<le> expand_weight numerator" using "5.IH"(1)[OF x] .
  have mxa: "expand_weight xa \<le> expand_weight denominator" using "5.IH"(2)[OF x xa] .
  show ?case
  proof (cases "is_Sum x")
    case True
    with body obtain rs where
      rs: "collect (map (\<lambda>t. bind_result (new inst Quotient_cls (Quotient_expr t denominator)) (expand inst))
                       (terms_of x)) = Inr rs" and r: "r = Sum_expr rs"
      by (auto dest!: bind_result_Inr Sum_call_Inr)
    have "list_all2 (\<lambda>t r. expand_weight r \<le> expand_weight (Quotient_expr t denominator)) (terms_of x) rs"
      using rs "5.IH"(3)[OF x xa True] by (rule distribute_bound)
    then have "list_all2 (\<lambda>t r. expand_weight r \<le> expand_weight t * expand_weight denominator) (terms_of x) rs" by simp
    moreover have "2 + sum_list (map expand_weight (terms_of x)) \<le> expand_weight numerator"
      using mx is_Sum_terms[OF True] by (metis expand_weight.simps(3))
    moreover have "1 \<le> expand_weight denominator" using expand_weight_ge2[of denominator] by simp
    ultimately show ?thesis unfolding r expand_weight.simps by (rule sum_branch_bound)
  next
    case False
    show ?thesis
    proof (cases "is_Sum xa")
      case True
      with body False obtain rs where
        rs: "collect (map (\<lambda>t. bind_result (new inst Quotient_cls (Quotient_expr numerator t)) (expand inst))
                       (terms_of xa)) = Inr rs" and r: "r = Sum_expr rs"
        by (auto dest!: bind_result_Inr Sum_call_Inr)
      have "list_all2 (\<lambda>t r. expand_weight r \<le> expand_weight (Quotient_expr numerator t)) (terms_of xa) rs"
        using rs "5.IH"(4)[OF x xa False True] by (rule distribute_bound)
      then have "list_all2 (\<lambda>t r. expand_weight r \<le> expand_weight t * expand_weight numerator) (terms_of xa) rs"
        by (simp add: mult.commute)
      moreover have "2 + sum_list (map expand_weight (terms_of xa)) \<le> expand_weight denominator"
        using mxa is_Sum_terms[OF True] by (metis expand_weight.simps(3))
      moreover have "1 \<le> expand_weight numerator" using expand_weight_ge2[of numerator] by simp
      ultimately have "2 + sum_list (map expand_weight rs) \<le> expand_weight denominator * expand_weight numerator" by (rule sum_branch_bound)
      then show ?thesis unfolding r by (simp add: mult.commute)
    next
      case nb: False
      with body False have "r = Quotient_expr x xa" by (auto dest!: new_Inr)
      then show ?thesis using mx mxa by (simp add: mult_le_mono)
    qed
  qed
next
  case (6 inst minuend subtrahend)
  then show ?case 
    by (auto simp: expand.psimps dest!: bind_result_Inr new_Inr intro!: add_mono)
next
  case (7 inst b e)
  from "7.prems" "7.hyps" obtain x xa where
    x: "expand inst b = Inr x" and xa: "expand inst e = Inr xa" and
    body: "(if is_Sum x then
       bind_result
         (collect (map (\<lambda>t. bind_result (new inst Power_cls (Power t e)) (expand inst))
                       (terms_of x)))
         (Sum_call inst)
     else if is_Sum xa then
       bind_result
         (collect (map (\<lambda>t. bind_result (new inst Power_cls (Power b t)) (expand inst))
                       (terms_of xa)))
         (Product_call inst)
     else new inst Power_cls (Power x xa)) = Inr r"
    by (auto simp: expand.psimps dest!: bind_result_Inr)
  have mx: "expand_weight x \<le> expand_weight b" using "7.IH"(1)[OF x] .
  have mxa: "expand_weight xa \<le> expand_weight e" using "7.IH"(2)[OF x xa] .
  have b1: "1 \<le> expand_weight b" using expand_weight_ge2[of b] by simp
  show ?case
  proof (cases "is_Sum x")
    case True
    with body obtain rs where
      rs: "collect (map (\<lambda>t. bind_result (new inst Power_cls (Power t e)) (expand inst))
                       (terms_of x)) = Inr rs" and r: "r = Sum_expr rs"
      by (auto dest!: bind_result_Inr Sum_call_Inr)
    have "list_all2 (\<lambda>t r. expand_weight r \<le> expand_weight (Power t e)) (terms_of x) rs"
      using rs "7.IH"(3)[OF x xa True] by (rule distribute_bound)
    then have "list_all2 (\<lambda>t r. expand_weight r \<le> expand_weight t ^ expand_weight e) (terms_of x) rs" by simp
    moreover have "2 + sum_list (map expand_weight (terms_of x)) \<le> expand_weight b"
      using mx is_Sum_terms[OF True] by (metis expand_weight.simps(3))
    moreover have "1 \<le> expand_weight e" using expand_weight_ge2[of e] by simp
    ultimately show ?thesis unfolding r expand_weight.simps by (rule power_branch_bound)
  next
    case False
    show ?thesis
    proof (cases "is_Sum xa")
      case True
      with body False obtain rs where
        rs: "collect (map (\<lambda>t. bind_result (new inst Power_cls (Power b t)) (expand inst))
                       (terms_of xa)) = Inr rs" and pc: "Product_call inst rs = Inr r"
        by (auto dest!: bind_result_Inr)
      from pc obtain r1 r2 where rs2: "rs = [r1, r2]" and r: "r = Product r1 r2"
        by (auto dest!: Product_call_Inr)
      have all2: "list_all2 (\<lambda>t r. expand_weight r \<le> expand_weight (Power b t)) (terms_of xa) rs"
        using rs "7.IH"(4)[OF x xa False True] by (rule distribute_bound)
      then obtain t1 t2 where ts: "terms_of xa = [t1, t2]"
        unfolding rs2 by (auto simp: list_all2_Cons2)
      from all2 have le1: "expand_weight r1 \<le> expand_weight b ^ expand_weight t1" and le2: "expand_weight r2 \<le> expand_weight b ^ expand_weight t2"
        unfolding rs2 ts by simp_all
      have "expand_weight xa = 2 + (expand_weight t1 + expand_weight t2)" using is_Sum_terms[OF True] ts by (metis expand_weight.simps(3) list.simps(8,9) sum_list.Cons sum_list.Nil add_0_right)
      then have "expand_weight t1 + expand_weight t2 \<le> expand_weight e" using mxa by simp
      have "expand_weight r1 * expand_weight r2 \<le> expand_weight b ^ expand_weight t1 * expand_weight b ^ expand_weight t2" using le1 le2 by (rule mult_le_mono)
      also have "\<dots> = expand_weight b ^ (expand_weight t1 + expand_weight t2)" by (simp add: power_add)
      also have "\<dots> \<le> expand_weight b ^ expand_weight e" using \<open>expand_weight t1 + expand_weight t2 \<le> expand_weight e\<close> b1 by (rule power_increasing)
      finally show ?thesis unfolding r by simp
    next
      case nb: False
      with body False have "r = Power x xa" by (auto dest!: new_Inr)
      moreover have "expand_weight x ^ expand_weight xa \<le> expand_weight b ^ expand_weight e"
      proof -
        have "expand_weight x ^ expand_weight xa \<le> expand_weight b ^ expand_weight xa" using mx by (rule power_mono) simp
        also have "\<dots> \<le> expand_weight b ^ expand_weight e" using mxa b1 by (rule power_increasing)
        finally show ?thesis .
      qed
      ultimately show ?thesis by simp
    qed
  qed
next
  case (8 inst dividend divisor)
  then show ?case using expand_weight_ge2[of dividend] by (auto simp: expand.psimps)
qed (auto simp: expand.psimps dest!: bind_result_Inr new_Inr)

lemma expand_weight_pos: "0 < expand_weight e"
  using expand_weight_ge2[of e] by simp

lemma expand_weight_gt1: "Suc 0 < expand_weight e"
  using expand_weight_ge2[of e] by simp

lemma expand_weight_term_less:
  assumes "expand_dom (inst, a)" and "expand inst a = Inr x" and "is_Sum x" and "t \<in> set (terms_of x)"
  shows "expand_weight t < expand_weight a"
proof -
  have "expand_weight t \<le> sum_list (map expand_weight (terms_of x))" using assms(4) by (rule elem_le_sum_list_map)
  also have "\<dots> < expand_weight (Sum_expr (terms_of x))" by simp
  also have "\<dots> = expand_weight x" using is_Sum_terms[OF assms(3)] by simp
  also have "\<dots> \<le> expand_weight a" using assms(1,2) by (rule expand_bound_partial)
  finally show ?thesis .
qed

lemma expand_weight_base_less: "expand_weight b < expand_weight b ^ expand_weight e"
proof -
  have "expand_weight b ^ 1 < expand_weight b ^ expand_weight e" using expand_weight_gt1[of b] expand_weight_gt1[of e] by (intro power_strict_increasing) auto
  then show ?thesis by simp
qed

lemma expand_weight_exponent_less: "expand_weight e < expand_weight b ^ expand_weight e"
  using expand_weight_gt1[of b] by (rule power_gt_expt)

termination expand
proof (relation "measure (\<lambda>(inst, e). expand_weight e)", goal_cases)
  case 1
  show ?case by simp
next
  case (2 inst terms x)
  then show ?case using elem_le_sum_list_map[of x terms expand_weight] by simp
next
  case (5 inst factor1 factor2 x xa xaa xb)
  then have "expand_weight xaa < expand_weight factor1" and "xb = Product xaa factor2"
    by (auto intro: expand_weight_term_less dest: new_Inr)
  then show ?case using expand_weight_pos[of factor2] by simp
next
  case (6 inst factor1 factor2 x xa xb xc)
  then have "expand_weight xb < expand_weight factor2" and "xc = Product factor1 xb"
    by (auto intro: expand_weight_term_less dest: new_Inr)
  then show ?case using expand_weight_pos[of factor1] by simp
next
  case (9 inst numerator denominator x xa xaa xb)
  then have "expand_weight xaa < expand_weight numerator" and "xb = Quotient_expr xaa denominator"
    by (auto intro: expand_weight_term_less dest: new_Inr)
  then show ?case using expand_weight_pos[of denominator] by simp
next
  case (10 inst numerator denominator x xa xb xc)
  then have "expand_weight xb < expand_weight denominator" and "xc = Quotient_expr numerator xb"
    by (auto intro: expand_weight_term_less dest: new_Inr)
  then show ?case using expand_weight_pos[of numerator] by simp
next
  case (15 inst b e x xa xaa xb)
  then have "expand_weight xaa < expand_weight b" and "xb = Power xaa e"
    by (auto intro: expand_weight_term_less dest: new_Inr)
  then show ?case using expand_weight_pos[of e] by (simp add: power_strict_mono)
next
  case (16 inst b e x xa xb xc)
  then have "expand_weight xb < expand_weight e" and "xc = Power b xb"
    by (auto intro: expand_weight_term_less dest: new_Inr)
  then show ?case using expand_weight_gt1[of b] by (simp add: power_strict_increasing)
qed (simp_all add: expand_weight_pos expand_weight_gt1 expand_weight_base_less expand_weight_exponent_less)

section \<open>Combinator search\<close>

text \<open>
  The values the search can meet: a node (or \<^verbatim>\<open>None\<close>), a number, a string, the tuple held
  by \<^verbatim>\<open>Sum.terms\<close>, and a \<^verbatim>\<open>Function\<close> object.
\<close>

datatype pyval = VExpr expr | VNum pynum | VStr string | VTuple "expr list" | VFunction func

text \<open>The module class an object is an instance of (\<^verbatim>\<open>None\<close> has none).\<close>

fun class_of :: "expr \<Rightarrow> cls option" where
  "class_of (Number v) = Some Number_cls"
| "class_of (Variable name) = Some Variable_cls"
| "class_of (Sum_expr terms) = Some Sum_cls"
| "class_of (Product factor1 factor2) = Some Product_cls"
| "class_of (Quotient_expr numerator denominator) = Some Quotient_cls"
| "class_of (Difference minuend subtrahend) = Some Difference_cls"
| "class_of (Power b e) = Some Power_cls"
| "class_of (Modulo dividend divisor) = Some Modulo_cls"
| "class_of (Negative e) = Some Negative_cls"
| "class_of (AbsoluteValue e) = Some AbsoluteValue_cls"
| "class_of (SquareRoot e) = Some SquareRoot_cls"
| "class_of (Apply f argument) = Some Apply_cls"
| "class_of PyNone = None"

definition issubclass :: "cls \<Rightarrow> cls \<Rightarrow> bool" where
  "issubclass c k = (c = k \<or> base c = Some k)"

fun isinstance :: "pyval \<Rightarrow> cls \<Rightarrow> bool" where
  "isinstance (VExpr e) k = (case class_of e of None \<Rightarrow> False | Some c \<Rightarrow> issubclass c k)"
| "isinstance (VFunction f) k = issubclass Function_cls k"
| "isinstance v k = False"

text \<open>
  \<^verbatim>\<open>expression.__dict__.values()\<close>: the attributes in the order \<^verbatim>\<open>__init__\<close> assigns them.
  It is read only for instances of \<^verbatim>\<open>Expression\<close>.
\<close>

fun dict_values :: "pyval \<Rightarrow> pyval list" where
  "dict_values (VExpr (Number v)) = [VNum v]"
| "dict_values (VExpr (Variable name)) = [VStr name]"
| "dict_values (VExpr (Sum_expr terms)) = [VTuple terms]"
| "dict_values (VExpr (Product factor1 factor2)) = [VExpr factor1, VExpr factor2]"
| "dict_values (VExpr (Quotient_expr numerator denominator)) =
     [VExpr numerator, VExpr denominator]"
| "dict_values (VExpr (Difference minuend subtrahend)) = [VExpr minuend, VExpr subtrahend]"
| "dict_values (VExpr (Power b e)) = [VExpr b, VExpr e]"
| "dict_values (VExpr (Modulo dividend divisor)) = [VExpr dividend, VExpr divisor]"
| "dict_values (VExpr (Negative e)) = [VExpr e]"
| "dict_values (VExpr (AbsoluteValue e)) = [VExpr e]"
| "dict_values (VExpr (SquareRoot e)) = [VExpr e]"
| "dict_values (VExpr (Apply f argument)) = [VFunction f, VExpr argument]"
| "dict_values (VFunction (Function name)) = [VStr name]"
| "dict_values v = []"

text \<open>\<^verbatim>\<open>any(generator)\<close>: stops at the first true element; an element that raises ends it.\<close>

fun py_any :: "(error + bool) list \<Rightarrow> error + bool" where
  "py_any [] = Inr False"
| "py_any (r # rs) = bind_result r (\<lambda>b. if b then Inr True else py_any rs)"

function expression_contain_combinator :: "pyval \<Rightarrow> cls \<Rightarrow> error + bool" where
  "expression_contain_combinator expression combinator =
     (if isinstance expression combinator then Inr True
      else if isinstance expression Expression_cls then
        py_any (map (\<lambda>sub_expression. expression_contain_combinator sub_expression combinator)
                    (dict_values expression))
      else Inl (TypeError Not_an_expression))"
  by pat_completeness auto

fun value_depth :: "pyval \<Rightarrow> nat" where
  "value_depth (VExpr e) = Suc (size e)"
| "value_depth v = 0"

lemma dict_values_smaller:
  "x \<in> set (dict_values v) \<Longrightarrow> isinstance v Expression_cls \<Longrightarrow> value_depth x < value_depth v"
proof (cases v)
  case (VExpr e)
  assume "x \<in> set (dict_values v)"
  with VExpr show ?thesis by (cases e) auto
qed (auto simp: issubclass_def)

termination expression_contain_combinator
  by (relation "measure (\<lambda>(v, k). value_depth v)") (auto simp: dict_values_smaller)

declare expression_contain_combinator.simps [simp del]

section \<open>Instantiation\<close>

text \<open>The abstract names left in each variant, as \<^verbatim>\<open>ABCMeta\<close> computes them.\<close>

lemma abstractmethods_variants:
  "abstractmethods Number_cls = [''__str__'']"
  "abstractmethods Variable_cls = [''__str__'']"
  "abstractmethods Sum_cls = [''__str__'']"
  "abstractmethods Difference_cls = [''__str__'']"
  "abstractmethods Product_cls = [''__str__'']"
  "abstractmethods Quotient_cls = [''__str__'']"
  "abstractmethods Power_cls = [''__str__'']"
  "abstractmethods Negative_cls = [''__str__'']"
  "abstractmethods AbsoluteValue_cls = [''__str__'']"
  "abstractmethods SquareRoot_cls = [''__str__'', ''derivative'']"
  "abstractmethods Apply_cls = [''__str__'', ''derivative'']"
  "abstractmethods Modulo_cls = [''__str__'', ''expand'', ''derivative'']"
  by (simp_all add: abstractmethods_def)

lemma not_instantiable [simp]:
  "\<not> instantiable Number_cls" "\<not> instantiable Variable_cls" "\<not> instantiable Sum_cls"
  "\<not> instantiable Difference_cls" "\<not> instantiable Product_cls" "\<not> instantiable Quotient_cls"
  "\<not> instantiable Power_cls" "\<not> instantiable Modulo_cls" "\<not> instantiable Negative_cls"
  "\<not> instantiable AbsoluteValue_cls" "\<not> instantiable SquareRoot_cls" "\<not> instantiable Apply_cls"
  by (simp_all add: instantiable_def abstractmethods_variants)

text \<open>
  C1. No variant class defines \<^verbatim>\<open>__str__\<close>, which \<^verbatim>\<open>Expression\<close> declares abstract, so the name
  stays abstract in every variant and no variant is instantiable: a call of any of the
  twelve constructors raises \<^verbatim>\<open>TypeError\<close> in \<^verbatim>\<open>object.__new__\<close>, before \<^verbatim>\<open>__init__\<close> looks at
  the arguments, whatever \<^verbatim>\<open>__init__\<close> would do with them (\<open>init_result\<close>).
  \<^verbatim>\<open>Modulo\<close> also leaves \<^verbatim>\<open>expand\<close> and \<^verbatim>\<open>derivative\<close> abstract, \<^verbatim>\<open>SquareRoot\<close> and \<^verbatim>\<open>Apply\<close>
  leave \<^verbatim>\<open>derivative\<close> abstract.
\<close>

theorem variant_constructors_raise:
  "c \<in> set variant_classes \<Longrightarrow>
     ''__str__'' \<notin> set (class_body c) \<and> ''__str__'' \<in> set (abstractmethods c) \<and>
     \<not> instantiable c \<and>
     type_call instantiable c init_result = Inl (TypeError (Abstract_class c)) \<and>
     abstractmethods Modulo_cls = [''__str__'', ''expand'', ''derivative''] \<and>
     abstractmethods SquareRoot_cls = [''__str__'', ''derivative''] \<and>
     abstractmethods Apply_cls = [''__str__'', ''derivative'']"
  unfolding variant_classes_def type_call_def
  by (auto simp: abstractmethods_variants)

theorem variant_constructors_raise_witness:
  "Modulo_cls \<in> set variant_classes \<and>
   type_call instantiable Modulo_cls (Inr (Modulo (Number (PyInt 7)) (Number (PyInt 2)))) =
     Inl (TypeError (Abstract_class Modulo_cls))"
proof -
  have h: "Modulo_cls \<in> set variant_classes" by (simp add: variant_classes_def)
  from h variant_constructors_raise [OF h, of "Inr (Modulo (Number (PyInt 7)) (Number (PyInt 2)))"]
  show ?thesis by blast
qed

text \<open>The constructor calls the methods make fail in the same way.\<close>

lemmas call_defs = bind_result_def new_def type_call_def Sum_call_def Product_call_def

lemma module_constructors_raise:
  "c \<in> set variant_classes \<Longrightarrow> new instantiable c obj = Inl (TypeError (Abstract_class c))"
  "Sum_call instantiable args = Inl (TypeError (Abstract_class Sum_cls))"
  "Product_call instantiable args = Inl (TypeError (Abstract_class Product_cls))"
  by (auto simp: call_defs variant_classes_def)

section \<open>Evaluation of variables and applications\<close>

text \<open>A call of \<open>evaluate\<close> on a node with the key \<^verbatim>\<open>self\<close> among the bindings raises.\<close>

lemma evaluate_self_key:
  "bindings ''self'' = Some w \<Longrightarrow> e \<noteq> PyNone \<Longrightarrow>
     evaluate h e bindings = Inl (TypeError (Multiple_values ''self''))"
proof (cases e)
  case (Apply f argument)
  assume "bindings ''self'' = Some w"
  with Apply show ?thesis by (cases f) (simp add: keyword_call_def)
qed (simp_all add: keyword_call_def)

text \<open>
  C4, as claimed: for every name and bindings map, evaluating the variable returns the
  value bound to the name when it is bound. This fails for the bindings that bind the name
  \<^verbatim>\<open>self\<close> to 5: \<^verbatim>\<open>evaluate(self, **bindings)\<close> raises \<^verbatim>\<open>TypeError\<close> for the variable \<^verbatim>\<open>self\<close>.
  The claim's own instance \<^verbatim>\<open>Variable("x")\<close> also raises \<^verbatim>\<open>TypeError\<close> when it is built.
\<close>

theorem Variable_evaluate_self_raises:
  "[''self'' \<mapsto> PyInt 5] ''self'' = Some (PyInt 5) \<and>
   evaluate integer_host (Variable ''self'') [''self'' \<mapsto> PyInt 5] =
     Inl (TypeError (Multiple_values ''self'')) \<and>
   new instantiable Variable_cls (Variable ''x'') = Inl (TypeError (Abstract_class Variable_cls))"
  by (simp add: keyword_call_def call_defs)

text \<open>
  C4, amended: on a variable node, for every host, name and bindings map without the key
  \<^verbatim>\<open>self\<close>, \<^verbatim>\<open>Variable.evaluate\<close> returns the value bound to the name when the name is bound,
  and fails with the error for an unbound variable (the \<^verbatim>\<open>ValueError\<close> raised in place of the
  \<^verbatim>\<open>KeyError\<close>) when it is not; no default value is returned. Bindings with the key \<^verbatim>\<open>self\<close>
  raise \<^verbatim>\<open>TypeError\<close>. With no bindings the variable \<^verbatim>\<open>x\<close> fails, and with \<^verbatim>\<open>x\<close> bound to 5 the
  result is 5.
\<close>

theorem Variable_evaluate:
  "(bindings ''self'' = None \<and> bindings name = Some v \<longrightarrow>
      evaluate h (Variable name) bindings = Inr v) \<and>
   (bindings ''self'' = None \<and> bindings name = None \<longrightarrow>
      evaluate h (Variable name) bindings = Inl (ValueError_unbound name)) \<and>
   (bindings ''self'' = Some w \<longrightarrow>
      evaluate h (Variable name) bindings = Inl (TypeError (Multiple_values ''self''))) \<and>
   evaluate h (Variable ''x'') Map.empty = Inl (ValueError_unbound ''x'') \<and>
   evaluate h (Variable ''x'') [''x'' \<mapsto> PyInt 5] = Inr (PyInt 5)"
  by (simp add: keyword_call_def)

theorem Variable_evaluate_witness:
  "[''x'' \<mapsto> PyInt 5] ''self'' = None \<and> [''x'' \<mapsto> PyInt 5] ''x'' = Some (PyInt 5) \<and>
   evaluate integer_host (Variable ''x'') [''x'' \<mapsto> PyInt 5] = Inr (PyInt 5) \<and>
   [''x'' \<mapsto> PyInt 5] ''y'' = None \<and>
   evaluate integer_host (Variable ''y'') [''x'' \<mapsto> PyInt 5] = Inl (ValueError_unbound ''y'') \<and>
   [''self'' \<mapsto> PyInt 5] ''self'' = Some (PyInt 5) \<and>
   evaluate integer_host (Variable ''x'') [''self'' \<mapsto> PyInt 5] =
     Inl (TypeError (Multiple_values ''self''))"
proof -
  have no_self: "[''x'' \<mapsto> PyInt 5] ''self'' = None" by simp
  have present: "[''x'' \<mapsto> PyInt 5] ''x'' = Some (PyInt 5)" by simp
  have absent: "[''x'' \<mapsto> PyInt 5] ''y'' = None" by simp
  have self: "[''self'' \<mapsto> PyInt 5] ''self'' = Some (PyInt 5)" by simp
  from no_self present absent self
    Variable_evaluate [of "[''x'' \<mapsto> PyInt 5]" "''x''" "PyInt 5" integer_host]
    Variable_evaluate [of "[''x'' \<mapsto> PyInt 5]" "''y''" _ integer_host]
    Variable_evaluate [of "[''self'' \<mapsto> PyInt 5]" "''x''" _ integer_host "PyInt 5"]
  show ?thesis by blast
qed

text \<open>The function table binds each name once, so the first binding is the only one.\<close>

lemma registry_keys_distinct: "distinct (map fst SPECIAL_FUNCTIONS_BINDING)"
  by (simp add: SPECIAL_FUNCTIONS_BINDING_def)




section \<open>Differentiation\<close>

text \<open>
  In the module as it is written, \<open>derivative\<close> returns nothing but the \<^verbatim>\<open>None\<close> of the
  inherited stub: every rule that builds a node raises.
\<close>

lemma derivative_source_returns_None:
  "derivative instantiable e variable = Inr t \<Longrightarrow> t = PyNone"
  by (cases e) (auto simp: call_defs split: sum.splits if_splits)

text \<open>
  \<^verbatim>\<open>Power.derivative\<close> returns in no environment: its last step calls \<^verbatim>\<open>Product\<close> with three
  arguments.
\<close>

lemma Power_derivative_never_returns: "derivative inst (Power b e) variable \<noteq> Inr t"
  by (auto simp: call_defs split: sum.splits)

text \<open>
  C2. The claim is that the derivative of \<^verbatim>\<open>Power(Variable("x"), Number(2))\<close> with respect to
  \<^verbatim>\<open>x\<close> succeeds and evaluates to 6 at \<^verbatim>\<open>x = 3\<close>. The code raises \<^verbatim>\<open>TypeError\<close> instead: in the
  module as written at the first node it builds, \<^verbatim>\<open>Number(1)\<close>, whose class is abstract; and
  with every class instantiable at the call of \<^verbatim>\<open>Product\<close> with three arguments, which
  \<^verbatim>\<open>Product.__init__\<close> does not take.
\<close>

theorem Power_derivative_raises:
  "derivative instantiable (Power (Variable ''x'') (Number (PyInt 2))) ''x'' =
     Inl (TypeError (Abstract_class Number_cls)) \<and>
   derivative concrete (Power (Variable ''x'') (Number (PyInt 2))) ''x'' =
     Inl (TypeError (Arg_count Product_cls 3))"
  by (simp add: call_defs concrete_def)

text \<open>
  The quotient rule as \<^verbatim>\<open>Quotient.derivative\<close> writes it, where the classes it instantiates
  can be instantiated.
\<close>

lemma Quotient_derivative_rule:
  assumes "inst Product_cls" "inst Difference_cls" "inst Number_cls" "inst Power_cls"
    "inst Quotient_cls"
    and "derivative inst n variable = Inr n'" and "derivative inst d variable = Inr d'"
  shows "derivative inst (Quotient_expr n d) variable =
     Inr (Quotient_expr (Difference (Product n' d) (Product n d')) (Power d (Number (PyInt 2))))"
  using assms by (simp add: call_defs)

lemma Quotient_derivative_source_raises:
  "\<exists>err. derivative instantiable (Quotient_expr n d) variable = Inl err"
  by (cases "derivative instantiable n variable") (simp_all add: call_defs)

text \<open>
  C8. The claim is that the derivative of \<^verbatim>\<open>Quotient(n, d)\<close> is the tree
  \<^verbatim>\<open>Quotient(Difference(Product(n', d), Product(n, d')), Power(d, Number(2)))\<close>. In the module
  as written no such tree is returned: the derivative of the quotient of the variable \<^verbatim>\<open>x\<close>
  by the number 2 raises \<^verbatim>\<open>TypeError\<close> when the derivative of the numerator builds
  \<^verbatim>\<open>Number(1)\<close>, whose class is abstract. With every class instantiable the same call
  returns the tree of the claim.
\<close>

theorem Quotient_derivative_raises:
  "derivative instantiable (Quotient_expr (Variable ''x'') (Number (PyInt 2))) ''x'' =
     Inl (TypeError (Abstract_class Number_cls)) \<and>
   derivative concrete (Quotient_expr (Variable ''x'') (Number (PyInt 2))) ''x'' =
     Inr (Quotient_expr
            (Difference (Product (Number (PyInt 1)) (Number (PyInt 2))) (Product (Variable ''x'') (Number (PyInt 0))))
            (Power (Number (PyInt 2)) (Number (PyInt 2))))"
  by (simp add: call_defs concrete_def)



section \<open>Expansion\<close>

text \<open>
  In the module as it is written, \<open>expand\<close> returns only the leaf it was given or the
  \<^verbatim>\<open>None\<close> of the inherited stub: every rule that builds a node raises.
\<close>

lemma expand_source_returns:
  "expand instantiable e = Inr t \<Longrightarrow> t = e \<or> t = PyNone"
  by (cases e) (auto simp: call_defs split: sum.splits if_splits)

text \<open>
  C10. The claim is that a sum of no terms evaluates to 0 and expands to a sum of no terms.
  The evaluation holds for every host and every bindings map without the key \<^verbatim>\<open>self\<close> (with
  that key the call raises \<^verbatim>\<open>TypeError\<close>). The expansion raises \<^verbatim>\<open>TypeError\<close>:
  \<^verbatim>\<open>Sum.expand\<close> builds its result with \<^verbatim>\<open>Sum(*[])\<close>, and \<^verbatim>\<open>Sum\<close> is abstract. With every
  class instantiable the expansion is the sum of no terms.
\<close>

theorem empty_Sum:
  "evaluate h (Sum_expr []) bindings =
     (if bindings ''self'' = None then Inr (PyInt 0)
      else Inl (TypeError (Multiple_values ''self''))) \<and>
   expand instantiable (Sum_expr []) = Inl (TypeError (Abstract_class Sum_cls)) \<and>
   expand concrete (Sum_expr []) = Inr (Sum_expr [])"
  by (simp add: call_defs concrete_def keyword_call_def)

lemma empty_Sum_expand:
  "expand inst (Sum_expr []) =
     (if inst Sum_cls then Inr (Sum_expr []) else Inl (TypeError (Abstract_class Sum_cls)))"
  by (simp add: call_defs)

text \<open>
  C9. The claim is that expanding \<^verbatim>\<open>Product(Sum(Variable("x"), Number(1)), Variable("y"))\<close>
  gives a tree that evaluates to 9 at \<^verbatim>\<open>x = 2, y = 3\<close>, as the product itself does. In the
  module as written the expansion returns no tree: expanding the first factor builds a
  \<^verbatim>\<open>Sum\<close>, which is abstract, and \<^verbatim>\<open>TypeError\<close> is raised. With every class instantiable
  the product is distributed over the sum, and that tree and the product both evaluate to 9,
  in integer arithmetic, for every host.
\<close>

theorem Product_expand_raises:
  "expand instantiable (Product (Sum_expr [Variable ''x'', Number (PyInt 1)]) (Variable ''y'')) =
     Inl (TypeError (Abstract_class Sum_cls)) \<and>
   expand concrete (Product (Sum_expr [Variable ''x'', Number (PyInt 1)]) (Variable ''y'')) =
     Inr (Sum_expr [Product (Variable ''x'') (Variable ''y''),
                    Product (Number (PyInt 1)) (Variable ''y'')]) \<and>
   evaluate h (Sum_expr [Product (Variable ''x'') (Variable ''y''),
                         Product (Number (PyInt 1)) (Variable ''y'')])
     [''x'' \<mapsto> PyInt 2, ''y'' \<mapsto> PyInt 3] = Inr (PyInt 9) \<and>
   evaluate h (Product (Sum_expr [Variable ''x'', Number (PyInt 1)]) (Variable ''y''))
     [''x'' \<mapsto> PyInt 2, ''y'' \<mapsto> PyInt 3] = Inr (PyInt 9)"
  by (simp add: call_defs concrete_def keyword_call_def)

text \<open>
  \<^verbatim>\<open>Power.expand\<close> over an exponent that expands to a sum passes one argument per term to
  \<^verbatim>\<open>Product\<close>, which takes two: with any other number of terms it returns in no environment.
\<close>

lemma collect_length: "collect xs = Inr rs \<Longrightarrow> length rs = length xs"
proof (induction xs arbitrary: rs)
  case Nil
  then show ?case by simp
next
  case (Cons x xs)
  then show ?case by (auto dest!: bind_result_Inr)
qed

lemma Power_expand_exponent_sum_arity:
  assumes "expand inst b = Inr expaded_base" and "\<not> is_Sum expaded_base"
    and "expand inst e = Inr (Sum_expr ts)" and "length ts \<noteq> 2"
  shows "expand inst (Power b e) \<noteq> Inr r"
proof
  assume "expand inst (Power b e) = Inr r"
  with assms(1-3) obtain rs where
    rs: "collect (map (\<lambda>t. bind_result (new inst Power_cls (Power b t)) (expand inst)) ts) = Inr rs"
    and call: "Product_call inst rs = Inr r"
    by (auto simp: bind_result_def split: sum.splits)
  from rs have "length rs = length ts" by (auto dest: collect_length)
  with call assms(4) show False by (auto dest: Product_call_Inr)
qed

lemma Power_expand_two_term_exponent:
  "expand concrete (Power (Variable ''x'') (Sum_expr [Number (PyInt 1), Number (PyInt 2)])) =
     Inr (Product (Power (Variable ''x'') (Number (PyInt 1))) (Power (Variable ''x'') (Number (PyInt 2))))"
  by (simp add: call_defs concrete_def)

lemma Power_expand_base_sum_example:
  "expand concrete (Power (Sum_expr [Variable ''x'', Number (PyInt 1)]) (Number (PyInt 2))) =
     Inr (Sum_expr [Power (Variable ''x'') (Number (PyInt 2)), Power (Number (PyInt 1)) (Number (PyInt 2))])"
  by (simp add: call_defs concrete_def)

lemma Power_expand_plain_example:
  "expand concrete (Power (Variable ''x'') (Number (PyInt 2))) = Inr (Power (Variable ''x'') (Number (PyInt 2)))"
  by (simp add: call_defs concrete_def)

text \<open>
  C6. The claim is that \<^verbatim>\<open>Power(b, e).expand()\<close>, when the expanded exponent is a sum of any
  number of terms (and the expanded base is no sum), is a product of \<^verbatim>\<open>Power(b, term)\<close>
  over the terms. For the variable \<^verbatim>\<open>x\<close> raised to a sum of three numbers the code raises
  \<^verbatim>\<open>TypeError\<close> instead: in the module as written when the exponent's expansion builds a
  \<^verbatim>\<open>Sum\<close>, which is abstract; and with every class instantiable when \<^verbatim>\<open>Product\<close> is called
  with three arguments.
\<close>

theorem Power_expand_raises:
  "expand instantiable (Power (Variable ''x'') (Sum_expr [Number (PyInt 1), Number (PyInt 2), Number (PyInt 3)])) =
     Inl (TypeError (Abstract_class Sum_cls)) \<and>
   expand concrete (Power (Variable ''x'') (Sum_expr [Number (PyInt 1), Number (PyInt 2), Number (PyInt 3)])) =
     Inl (TypeError (Arg_count Product_cls 3))"
  by (simp add: call_defs concrete_def)

section \<open>What the combinator search returns\<close>

lemma search_root_instance:
  "isinstance v k \<Longrightarrow> expression_contain_combinator v k = Inr True"
  by (simp add: expression_contain_combinator.simps)

lemma search_bare_number:
  "expression_contain_combinator (VNum x) k = Inl (TypeError Not_an_expression)"
  by (simp add: expression_contain_combinator.simps)

text \<open>
  The search never answers false: every instance of \<^verbatim>\<open>Expression\<close> has an attribute, and the
  walk either meets an instance of the class sought or reaches an attribute value that is
  no expression (a number, a name, the tuple of terms) and raises.
\<close>

lemma py_any_first: "r \<noteq> Inr False \<Longrightarrow> py_any (r # rs) \<noteq> Inr False"
  by (cases r) (auto simp: bind_result_def)

lemma dict_values_nonempty: "isinstance v Expression_cls \<Longrightarrow> dict_values v \<noteq> []"
proof (cases v)
  case (VExpr e)
  assume "isinstance v Expression_cls"
  with VExpr show ?thesis by (cases e) auto
qed (auto simp: issubclass_def)

lemma search_never_False: "expression_contain_combinator v k \<noteq> Inr False"
proof (induction v k rule: expression_contain_combinator.induct)
  case (1 expression combinator)
  show ?case
  proof (cases "\<not> isinstance expression combinator \<and> isinstance expression Expression_cls")
    case True
    then obtain x xs where xs: "dict_values expression = x # xs"
      using dict_values_nonempty[of expression] by (cases "dict_values expression") auto
    have "expression_contain_combinator x combinator \<noteq> Inr False"
      using True xs by (intro "1.IH") auto
    then have "py_any (map (\<lambda>sub. expression_contain_combinator sub combinator) (x # xs))
                 \<noteq> Inr False"
      unfolding list.map by (rule py_any_first)
    with True xs show ?thesis by (simp add: expression_contain_combinator.simps)
  next
    case False
    then show ?thesis by (auto simp: expression_contain_combinator.simps)
  qed
qed

text \<open>
  C3. The claim is that the search for \<^verbatim>\<open>Power\<close> in
  \<^verbatim>\<open>Sum(Variable("x"), Power(Variable("x"), Number(2)))\<close> returns true, and that the search
  fails only on a value that is no expression. The code raises \<^verbatim>\<open>TypeError\<close> on this tree:
  the only attribute of the \<^verbatim>\<open>Sum\<close> is the tuple of its terms, which is neither a \<^verbatim>\<open>Power\<close>
  nor an \<^verbatim>\<open>Expression\<close>.
\<close>

theorem search_under_Sum_raises:
  "expression_contain_combinator
     (VExpr (Sum_expr [Variable ''x'', Power (Variable ''x'') (Number (PyInt 2))])) Power_cls =
   Inl (TypeError Not_an_expression)"
  by (simp add: expression_contain_combinator.simps issubclass_def bind_result_def)

end
